theory Spec2Isabelle
  imports Complex_Main
begin

section \<open>Navigation tools of backend\_tools.py: zoom to rectangle and pan\<close>

text \<open>
  The development embeds the two toggle tools of \<^verbatim>\<open>lib/matplotlib/backend_tools.py\<close>,
  \<^verbatim>\<open>ToolZoom\<close> and \<^verbatim>\<open>ToolPan\<close>, as functions on an explicit program state. Numbers are
  exact reals (the source computes in floating point). Python objects that the tools
  reach through references (the axes of the figure) live in a store from references to
  objects; the figure holds the list of references.
\<close>

subsection \<open>Events, surfaces and press records\<close>

text \<open>The fields of an event that the tools read; each may be \<^verbatim>\<open>None\<close> in the source.\<close>

record event =
  ev_button :: "int option"
  ev_key :: "string option"
  ev_x :: "real option"
  ev_y :: "real option"

type_synonym interval = "real \<times> real"

text \<open>
  A transform is kept in the direction in which the tools use it:
  \<^verbatim>\<open>transData.inverted().transform_point\<close>, from a pixel point to a data point.
\<close>

type_synonym transform = "real \<times> real \<Rightarrow> real \<times> real"

text \<open>
  An axes object, as far as the tools observe it. \<open>xlim\<close> and \<open>ylim\<close> are what
  \<^verbatim>\<open>get_xlim\<close> and \<^verbatim>\<open>get_ylim\<close> return, \<open>xscale\<close> and \<open>yscale\<close> what \<^verbatim>\<open>get_xscale\<close> and
  \<^verbatim>\<open>get_yscale\<close> return, \<open>navigate\<close>, \<open>can_zoom\<close>, \<open>can_pan\<close> and \<open>in_axes\<close> the answers of
  the methods of these names, \<open>bbox_extents\<close> is \<^verbatim>\<open>bbox.extents\<close>. \<open>sharex\<close> and \<open>sharey\<close>
  name the group of shared x (y) axes the object belongs to, if any. The class itself is
  not part of the file: \<open>trans_of\<close> is the object's own rule that gives the pixel-to-data
  transform for given limits, so that \<^verbatim>\<open>transData\<close> follows the limits as they change, and
  \<open>pan_start\<close> is the slot in which the object keeps the start reference of its pan
  session.
\<close>

record axes =
  xlim :: interval
  ylim :: interval
  xscale :: string
  yscale :: string
  navigate :: bool
  can_zoom :: bool
  can_pan :: bool
  in_axes :: "event \<Rightarrow> bool"
  bbox_extents :: "real \<times> real \<times> real \<times> real"
  sharex :: "nat option"
  sharey :: "nat option"
  trans_of :: "interval \<Rightarrow> interval \<Rightarrow> transform"
  pan_start :: "(real \<times> real \<times> int option) option"

type_synonym store = "nat \<Rightarrow> axes"

text \<open>\<^verbatim>\<open>a.transData.inverted()\<close> for the limits the object has now.\<close>

definition transData_inverted :: "axes \<Rightarrow> transform" where
  "transData_inverted a = trans_of a (xlim a) (ylim a)"

text \<open>\<^verbatim>\<open>a.viewLim.frozen().extents\<close>: the tuple \<open>(x0, y0, x1, y1)\<close> of the limits.\<close>

definition viewLim_extents :: "axes \<Rightarrow> real \<times> real \<times> real \<times> real" where
  "viewLim_extents a = (fst (xlim a), fst (ylim a), snd (xlim a), snd (ylim a))"

text \<open>
  \<^verbatim>\<open>get_shared_x_axes().joined(a, la)\<close>: both objects are members of one group. An object
  that is in no group is joined with nothing.
\<close>

definition joined_x :: "store \<Rightarrow> nat \<Rightarrow> nat \<Rightarrow> bool" where
  "joined_x S a la = (sharex (S a) \<noteq> None \<and> sharex (S a) = sharex (S la))"

definition joined_y :: "store \<Rightarrow> nat \<Rightarrow> nat \<Rightarrow> bool" where
  "joined_y S a la = (sharey (S a) \<noteq> None \<and> sharey (S a) = sharey (S la))"

text \<open>
  Modelled from the spec: the range setters of a surface (the axes class is not in the
  file). The range is stored on the surface, and also on every surface that shares this
  axis with it (twin axes share one data range).
\<close>

definition set_xlim :: "nat \<Rightarrow> interval \<Rightarrow> store \<Rightarrow> store" where
  "set_xlim a v S = (\<lambda>b. if b = a \<or> joined_x S a b then (S b)\<lparr>xlim := v\<rparr> else S b)"

definition set_ylim :: "nat \<Rightarrow> interval \<Rightarrow> store \<Rightarrow> store" where
  "set_ylim a v S = (\<lambda>b. if b = a \<or> joined_y S a b then (S b)\<lparr>ylim := v\<rparr> else S b)"

text \<open>
  The tuple \<^verbatim>\<open>(x, y, a, i, a.viewLim.frozen(), a.transData.frozen())\<close> that
  \<^verbatim>\<open>ToolZoom.press\<close> appends to \<^verbatim>\<open>_xypress\<close>; \<open>pr_a\<close> is the reference to the axes.
\<close>

record press_record =
  pr_x :: real
  pr_y :: real
  pr_a :: nat
  pr_ind :: nat
  pr_lim :: "real \<times> real \<times> real \<times> real"
  pr_trans :: transform

subsection \<open>The navigation object: locks, view stack, hooks\<close>

datatype tool = ZoomTool | PanTool | OtherTool nat

datatype error = LockContention tool | TypeError | NonFinite

text \<open>
  Modelled from the spec: the exclusive lock of a channel (the lock class is not in the
  file). A lock holds at most one owner. Acquiring grants the lock when it is free or
  already held by the same owner, and fails with \<open>LockContention\<close>, naming the holder,
  when another owner holds it. Releasing clears the lock only for its holder and does
  nothing otherwise.
\<close>

definition lock_acquire :: "tool option \<Rightarrow> tool \<Rightarrow> error + tool option" where
  "lock_acquire l ow =
     (case l of
        None \<Rightarrow> Inr (Some ow)
      | Some h \<Rightarrow> if h = ow then Inr (Some ow) else Inl (LockContention h))"

definition lock_release :: "tool option \<Rightarrow> tool \<Rightarrow> tool option" where
  "lock_release l ow = (if l = Some ow then None else l)"

text \<open>
  Modelled from the spec: the view stack (the stack class is not in the file). A snapshot
  group holds the two ranges of every surface of the figure; the stack is the sequence of
  groups and a cursor. \<open>push\<close> drops the entries after the cursor, appends, and moves the
  cursor to the new entry.
\<close>

type_synonym snapshot = "(interval \<times> interval) list"

record view_stack =
  elements :: "snapshot list"
  cursor :: nat

definition stack_empty :: "view_stack \<Rightarrow> bool" where
  "stack_empty vs = (elements vs = [])"

definition stack_push :: "snapshot \<Rightarrow> view_stack \<Rightarrow> view_stack" where
  "stack_push g vs =
     (let kept = take (Suc (cursor vs)) (elements vs)
      in \<lparr>elements = kept @ [g], cursor = length kept\<rparr>)"

text \<open>
  The calls on the navigation object that only draw or notify are kept as a log, in the
  order in which the tools make them.
\<close>

datatype nav_call =
    Nav_press event
  | Nav_release event
  | Nav_draw
  | Nav_dynamic_update
  | Nav_draw_rubberband event real real real real

datatype handler = Switch_on_zoom_mode | Switch_off_zoom_mode

text \<open>
  The program state: the figure (the references returned by \<^verbatim>\<open>figure.get_axes()\<close> and
  the store of the objects), the callback registry of the canvas, the navigation object
  (four locks, the view stack, the log of its other calls), and the attributes of the
  two tools.
\<close>

record state =
  fig_axes :: "nat list"
  surfaces :: store
  callbacks :: "nat \<Rightarrow> (string \<times> handler) option"
  next_cid :: nat
  canvaslock :: "tool option"
  presslock :: "tool option"
  releaselock :: "tool option"
  movelock :: "tool option"
  views :: view_stack
  nav_calls :: "nav_call list"
  zoom_ids_zoom :: "nat list"
  zoom_button_pressed :: "int option"
  zoom_xypress :: "press_record list option"
  zoom_mode :: "string option"
  pan_button_pressed :: "int option"
  pan_xypress :: "(nat \<times> nat) list option"

text \<open>A handler returns the state, or raises: the state reached when it raised is kept.\<close>

type_synonym outcome = "(error \<times> state) + state"

definition final :: "outcome \<Rightarrow> state" where
  "final r = (case r of Inl (e, s) \<Rightarrow> s | Inr s \<Rightarrow> s)"

definition nav_log :: "nav_call \<Rightarrow> state \<Rightarrow> state" where
  "nav_log c s = s\<lparr>nav_calls := nav_calls s @ [c]\<rparr>"

text \<open>Modelled from the spec: \<open>pushCurrent\<close> snapshots the ranges of all surfaces and pushes.\<close>

definition push_current :: "state \<Rightarrow> state" where
  "push_current s =
     s\<lparr>views := stack_push (map (\<lambda>a. (xlim (surfaces s a), ylim (surfaces s a))) (fig_axes s))
                  (views s)\<rparr>"

text \<open>
  Modelled from the spec: \<open>connect\<close> registers a handler and returns a new subscription
  id, \<open>disconnect\<close> removes the subscription of an id (the canvas is not in the file).
\<close>

definition mpl_connect :: "string \<Rightarrow> handler \<Rightarrow> state \<Rightarrow> nat \<times> state" where
  "mpl_connect name h s =
     (next_cid s,
      s\<lparr>callbacks := (callbacks s)(next_cid s \<mapsto> (name, h)), next_cid := Suc (next_cid s)\<rparr>)"

definition mpl_disconnect :: "nat \<Rightarrow> state \<Rightarrow> state" where
  "mpl_disconnect cid s = s\<lparr>callbacks := (callbacks s)(cid := None)\<rparr>"

subsection \<open>ToolZoom\<close>

text \<open>\<^verbatim>\<open>ToolZoom.activate\<close>: three locks are taken in turn; each call may raise.\<close>

definition zoom_activate :: "state \<Rightarrow> outcome" where
  "zoom_activate s =
     (case lock_acquire (canvaslock s) ZoomTool of
        Inl e \<Rightarrow> Inl (e, s)
      | Inr l1 \<Rightarrow>
          (let s1 = s\<lparr>canvaslock := l1\<rparr> in
           case lock_acquire (presslock s1) ZoomTool of
             Inl e \<Rightarrow> Inl (e, s1)
           | Inr l2 \<Rightarrow>
               (let s2 = s1\<lparr>presslock := l2\<rparr> in
                case lock_acquire (releaselock s2) ZoomTool of
                  Inl e \<Rightarrow> Inl (e, s2)
                | Inr l3 \<Rightarrow> Inr (s2\<lparr>releaselock := l3\<rparr>))))"

text \<open>\<^verbatim>\<open>ToolZoom.deactivate\<close>: the same three locks are released.\<close>

definition zoom_deactivate :: "state \<Rightarrow> state" where
  "zoom_deactivate s =
     s\<lparr>canvaslock := lock_release (canvaslock s) ZoomTool,
       presslock := lock_release (presslock s) ZoomTool,
       releaselock := lock_release (releaselock s) ZoomTool\<rparr>"

text \<open>
  The branch of \<^verbatim>\<open>ToolZoom.press\<close> taken when \<^verbatim>\<open>_ids_zoom != []\<close>: a press in the middle of
  a zoom cancels it.
\<close>

definition zoom_cancel :: "state \<Rightarrow> event \<Rightarrow> state" where
  "zoom_cancel s event =
     (let s1 = s\<lparr>movelock := lock_release (movelock s) ZoomTool\<rparr>;
          s2 = fold mpl_disconnect (zoom_ids_zoom s1) s1;
          s3 = nav_log Nav_draw (nav_log (Nav_release event) s2)
      in s3\<lparr>zoom_xypress := None, zoom_button_pressed := None, zoom_ids_zoom := []\<rparr>)"

text \<open>The record of one axes at a press at the pixel point \<open>(x, y)\<close>.\<close>

definition press_record_of :: "store \<Rightarrow> real \<Rightarrow> real \<Rightarrow> nat \<times> nat \<Rightarrow> press_record" where
  "press_record_of S x y ia =
     \<lparr>pr_x = x, pr_y = y, pr_a = snd ia, pr_ind = fst ia,
      pr_lim = viewLim_extents (S (snd ia)),
      pr_trans = transData_inverted (S (snd ia))\<rparr>"

text \<open>
  The rest of \<^verbatim>\<open>ToolZoom.press\<close>, after \<^verbatim>\<open>_button_pressed\<close> was set to 1 or 3: the home
  view, the press records, the move lock, the two key listeners.
\<close>

definition zoom_arm :: "state \<Rightarrow> event \<Rightarrow> outcome" where
  "zoom_arm s event =
     (let s1 = (if stack_empty (views s) then push_current s else s);
          recs =
            (case (ev_x event, ev_y event) of
               (Some x, Some y) \<Rightarrow>
                 map (press_record_of (surfaces s1) x y)
                   (filter (\<lambda>ia. in_axes (surfaces s1 (snd ia)) event
                                 \<and> navigate (surfaces s1 (snd ia))
                                 \<and> can_zoom (surfaces s1 (snd ia)))
                      (enumerate 0 (fig_axes s1)))
             | _ \<Rightarrow> []);
          s2 = s1\<lparr>zoom_xypress := Some recs\<rparr>
      in case lock_acquire (movelock s2) ZoomTool of
           Inl e \<Rightarrow> Inl (e, s2)
         | Inr l \<Rightarrow>
             (let s3 = s2\<lparr>movelock := l\<rparr>;
                  (id2, s4) = mpl_connect ''key_press_event'' Switch_on_zoom_mode s3;
                  (id3, s5) = mpl_connect ''key_release_event'' Switch_off_zoom_mode s4;
                  s6 = s5\<lparr>zoom_ids_zoom := [id2, id3], zoom_mode := ev_key event\<rparr>
              in Inr (nav_log (Nav_press event) s6)))"

definition zoom_press :: "state \<Rightarrow> event \<Rightarrow> outcome" where
  "zoom_press s event =
     (if zoom_ids_zoom s \<noteq> [] then Inr (zoom_cancel s event)
      else if ev_button event = Some 1 then zoom_arm (s\<lparr>zoom_button_pressed := Some 1\<rparr>) event
      else if ev_button event = Some 3 then zoom_arm (s\<lparr>zoom_button_pressed := Some 3\<rparr>) event
      else Inr (s\<lparr>zoom_button_pressed := None\<rparr>))"

text \<open>
  \<^verbatim>\<open>ToolZoom.mouse_move\<close>. \<^verbatim>\<open>min\<close> and \<^verbatim>\<open>max\<close> on a coordinate that is \<^verbatim>\<open>None\<close> raise a
  \<^verbatim>\<open>TypeError\<close> (Python 3).
\<close>

definition zoom_mouse_move :: "state \<Rightarrow> event \<Rightarrow> outcome" where
  "zoom_mouse_move s event =
     (case zoom_xypress s of
        None \<Rightarrow> Inr s
      | Some [] \<Rightarrow> Inr s
      | Some (r # _) \<Rightarrow>
          (case ev_x event of
             None \<Rightarrow> Inl (TypeError, s)
           | Some x \<Rightarrow>
               (case ev_y event of
                  None \<Rightarrow> Inl (TypeError, s)
                | Some y \<Rightarrow>
                    (let lastx = pr_x r; lasty = pr_y r;
                         (x1, y1, x2, y2) = bbox_extents (surfaces s (pr_a r));
                         xa = max (min x lastx) x1; lastxa = min (max x lastx) x2;
                         ya = max (min y lasty) y1; lastya = min (max y lasty) y2
                     in if zoom_mode s = Some ''x''
                        then Inr (nav_log (Nav_draw_rubberband event xa y1 lastxa y2) s)
                        else if zoom_mode s = Some ''y''
                        then Inr (nav_log (Nav_draw_rubberband event x1 ya x2 lastya) s)
                        else Inr (nav_log (Nav_draw_rubberband event xa ya lastxa lastya) s)))))"

definition switch_on_zoom_mode :: "state \<Rightarrow> event \<Rightarrow> outcome" where
  "switch_on_zoom_mode s event = zoom_mouse_move (s\<lparr>zoom_mode := ev_key event\<rparr>) event"

definition switch_off_zoom_mode :: "state \<Rightarrow> event \<Rightarrow> outcome" where
  "switch_off_zoom_mode s event = zoom_mouse_move (s\<lparr>zoom_mode := None\<rparr>) event"

text \<open>
  Lines 508 to 528 of \<^verbatim>\<open>ToolZoom.release\<close> (and, written a second time for y, lines 530 to
  550): the range of the rectangle on one axis, from the current limits \<open>(Xmin, Xmax)\<close>
  of the axis and the data coordinates \<open>x\<close> (release) and \<open>lastx\<close> (press).
\<close>

definition zoom_rect_axis :: "bool \<Rightarrow> interval \<Rightarrow> real \<Rightarrow> real \<Rightarrow> interval" where
  "zoom_rect_axis twin lims x lastx =
     (let (Xmin, Xmax) = lims in
      if twin then (Xmin, Xmax)
      else if Xmin < Xmax then
        (let (x0, x1) = (if x < lastx then (x, lastx) else (lastx, x));
             x0 = (if x0 < Xmin then Xmin else x0);
             x1 = (if x1 > Xmax then Xmax else x1)
         in (x0, x1))
      else
        (let (x0, x1) = (if x > lastx then (x, lastx) else (lastx, x));
             x0 = (if x0 > Xmin then Xmin else x0);
             x1 = (if x1 < Xmax then Xmax else x1)
         in (x0, x1)))"

text \<open>
  Lines 561 to 568 (and 569 to 576 for y): the range of a zoom out. The source divides
  and takes logarithms in floating point, where a zero divisor or a non-positive
  argument gives an infinity or a NaN and no exception. The exact model has no such
  values: the result is \<open>None\<close> where an intermediate value is not a finite real.
\<close>

definition zoom_out_axis :: "string \<Rightarrow> interval \<Rightarrow> interval \<Rightarrow> interval option" where
  "zoom_out_axis scale lims r =
     (let (Xmin, Xmax) = lims; (x0, x1) = r in
      if scale = ''log'' then
        (if Xmin \<noteq> 0 \<and> x0 \<noteq> 0 \<and> 0 < Xmax / Xmin \<and> 0 < x1 / x0 \<and> ln (x1 / x0) \<noteq> 0
            \<and> 0 < Xmin / x0 \<and> 0 < Xmax / x0
         then (let alpha = ln (Xmax / Xmin) / ln (x1 / x0)
               in Some ((Xmin / x0) powr alpha * Xmin, (Xmax / x0) powr alpha * Xmin))
         else None)
      else
        (if x1 - x0 = 0 then None
         else (let alpha = (Xmax - Xmin) / (x1 - x0)
               in Some (alpha * (Xmin - x0) + Xmin, alpha * (Xmax - x0) + Xmin))))"

text \<open>
  Lines 489 to 550: the rectangle of one press record in data coordinates; \<open>x\<close> and \<open>y\<close>
  are the pixel coordinates of the release. The limits frozen in the record are assigned
  in line 489 and overwritten before any use, and the transform is taken from the axes
  object at this moment (\<^verbatim>\<open>a.transData.inverted()\<close>), not from the record. An axis that
  the object shares with an axes of \<^verbatim>\<open>last_a\<close> keeps the limits it has.
\<close>

definition zoom_rect ::
  "store \<Rightarrow> nat list \<Rightarrow> press_record \<Rightarrow> real \<Rightarrow> real \<Rightarrow> interval \<times> interval" where
  "zoom_rect S last_a cur x y =
     (let a = pr_a cur;
          (lastxd, lastyd) = transData_inverted (S a) (pr_x cur, pr_y cur);
          (xd, yd) = transData_inverted (S a) (x, y);
          twinx = list_ex (joined_x S a) last_a;
          twiny = list_ex (joined_y S a) last_a
      in (zoom_rect_axis twinx (xlim (S a)) xd lastxd,
          zoom_rect_axis twiny (ylim (S a)) yd lastyd))"

text \<open>
  Lines 489 to 584: the body of the loop of \<^verbatim>\<open>ToolZoom.release\<close> for one press record,
  after the test of the threshold. A range that is not finite stops the model with
  \<open>NonFinite\<close> where the source passes it to a setter.
\<close>

definition zoom_surface :: "state \<Rightarrow> nat list \<Rightarrow> press_record \<Rightarrow> real \<Rightarrow> real \<Rightarrow> outcome" where
  "zoom_surface s last_a cur x y =
     (let a = pr_a cur; S = surfaces s;
          (xr, yr) = zoom_rect S last_a cur x y
      in if zoom_button_pressed s = Some 1 then
           (if zoom_mode s = Some ''x'' then Inr (s\<lparr>surfaces := set_xlim a xr S\<rparr>)
            else if zoom_mode s = Some ''y'' then Inr (s\<lparr>surfaces := set_ylim a yr S\<rparr>)
            else Inr (s\<lparr>surfaces := set_ylim a yr (set_xlim a xr S)\<rparr>))
         else if zoom_button_pressed s = Some 3 then
           (let rx = zoom_out_axis (xscale (S a)) (xlim (S a)) xr;
                ry = zoom_out_axis (yscale (S a)) (ylim (S a)) yr
            in if zoom_mode s = Some ''x'' then
                 (case rx of
                    None \<Rightarrow> Inl (NonFinite, s)
                  | Some v \<Rightarrow> Inr (s\<lparr>surfaces := set_xlim a v S\<rparr>))
               else if zoom_mode s = Some ''y'' then
                 (case ry of
                    None \<Rightarrow> Inl (NonFinite, s)
                  | Some w \<Rightarrow> Inr (s\<lparr>surfaces := set_ylim a w S\<rparr>))
               else
                 (case rx of
                    None \<Rightarrow> Inl (NonFinite, s)
                  | Some v \<Rightarrow>
                      (case ry of
                         None \<Rightarrow> Inl (NonFinite, s\<lparr>surfaces := set_xlim a v S\<rparr>)
                       | Some w \<Rightarrow> Inr (s\<lparr>surfaces := set_ylim a w (set_xlim a v S)\<rparr>))))
         else Inr s)"

text \<open>Lines 484 to 487: a singular click ends the release.\<close>

definition zoom_abort :: "state \<Rightarrow> event \<Rightarrow> state" where
  "zoom_abort s event = nav_log Nav_draw (nav_log (Nav_release event) (s\<lparr>zoom_xypress := None\<rparr>))"

text \<open>Lines 586 to 593: the end of a release that went through all records.\<close>

definition zoom_finish :: "state \<Rightarrow> event \<Rightarrow> state" where
  "zoom_finish s event =
     nav_log (Nav_release event)
       (push_current
          ((nav_log Nav_draw s)\<lparr>zoom_xypress := None, zoom_button_pressed := None,
                                 zoom_mode := None\<rparr>))"

text \<open>
  The loop of lines 479 to 584 over the press records, with the list \<^verbatim>\<open>last_a\<close> of the axes
  seen so far. \<^verbatim>\<open>abs(x - lastx) < 5 or abs(y - lasty) < 5\<close> reads \<^verbatim>\<open>event.y\<close> only when the
  first test fails; a coordinate that is \<^verbatim>\<open>None\<close> raises a \<^verbatim>\<open>TypeError\<close> in the subtraction.
\<close>

fun release_loop :: "event \<Rightarrow> nat list \<Rightarrow> press_record list \<Rightarrow> state \<Rightarrow> outcome" where
  "release_loop event last_a [] s = Inr (zoom_finish s event)"
| "release_loop event last_a (cur # rest) s =
     (case ev_x event of
        None \<Rightarrow> Inl (TypeError, s)
      | Some x \<Rightarrow>
          if \<bar>x - pr_x cur\<bar> < 5 then Inr (zoom_abort s event)
          else
            (case ev_y event of
               None \<Rightarrow> Inl (TypeError, s)
             | Some y \<Rightarrow>
                 if \<bar>y - pr_y cur\<bar> < 5 then Inr (zoom_abort s event)
                 else
                   (case zoom_surface s last_a cur x y of
                      Inl es \<Rightarrow> Inl es
                    | Inr s' \<Rightarrow> release_loop event (last_a @ [pr_a cur]) rest s')))"

text \<open>Lines 469 to 472: the move lock is released and the key listeners are removed.\<close>

definition zoom_disarm :: "state \<Rightarrow> state" where
  "zoom_disarm s =
     (let s1 = s\<lparr>movelock := lock_release (movelock s) ZoomTool\<rparr>;
          s2 = fold mpl_disconnect (zoom_ids_zoom s1) s1
      in s2\<lparr>zoom_ids_zoom := []\<rparr>)"

definition zoom_release :: "state \<Rightarrow> event \<Rightarrow> outcome" where
  "zoom_release s event =
     (let s3 = zoom_disarm s
      in case zoom_xypress s3 of
           None \<Rightarrow> Inr s3
         | Some [] \<Rightarrow> Inr s3
         | Some (cur # rest) \<Rightarrow> release_loop event [] (cur # rest) s3)"

subsection \<open>ToolPan\<close>

text \<open>
  The pan primitives of a surface (\<^verbatim>\<open>start_pan\<close>, \<^verbatim>\<open>drag_pan\<close>, \<^verbatim>\<open>end_pan\<close>) belong to the axes
  class, which is not in the file. They are parameters of the tool: each takes the
  reference of the surface it is called on and its arguments, and changes the store.
\<close>

record pan_ops =
  start_pan :: "nat \<Rightarrow> real \<Rightarrow> real \<Rightarrow> int option \<Rightarrow> store \<Rightarrow> store"
  drag_pan :: "nat \<Rightarrow> int option \<Rightarrow> string option \<Rightarrow> real option \<Rightarrow> real option \<Rightarrow> store \<Rightarrow> store"
  end_pan :: "nat \<Rightarrow> store \<Rightarrow> store"

definition pan_activate :: "state \<Rightarrow> outcome" where
  "pan_activate s =
     (case lock_acquire (canvaslock s) PanTool of
        Inl e \<Rightarrow> Inl (e, s)
      | Inr l1 \<Rightarrow>
          (let s1 = s\<lparr>canvaslock := l1\<rparr> in
           case lock_acquire (presslock s1) PanTool of
             Inl e \<Rightarrow> Inl (e, s1)
           | Inr l2 \<Rightarrow>
               (let s2 = s1\<lparr>presslock := l2\<rparr> in
                case lock_acquire (releaselock s2) PanTool of
                  Inl e \<Rightarrow> Inl (e, s2)
                | Inr l3 \<Rightarrow> Inr (s2\<lparr>releaselock := l3\<rparr>))))"

definition pan_deactivate :: "state \<Rightarrow> state" where
  "pan_deactivate s =
     s\<lparr>canvaslock := lock_release (canvaslock s) PanTool,
       presslock := lock_release (presslock s) PanTool,
       releaselock := lock_release (releaselock s) PanTool\<rparr>"

text \<open>
  The loop of \<^verbatim>\<open>ToolPan.press\<close> over \<^verbatim>\<open>enumerate(self.figure.get_axes())\<close>, followed by the
  call of \<^verbatim>\<open>navigation.press\<close>. The move lock is taken once for every surface that starts
  a pan.
\<close>

fun pan_press_loop :: "pan_ops \<Rightarrow> event \<Rightarrow> (nat \<times> nat) list \<Rightarrow> state \<Rightarrow> outcome" where
  "pan_press_loop P event [] s = Inr (nav_log (Nav_press event) s)"
| "pan_press_loop P event ((i, a) # rest) s =
     (case (ev_x event, ev_y event) of
        (Some x, Some y) \<Rightarrow>
          if in_axes (surfaces s a) event \<and> navigate (surfaces s a) \<and> can_pan (surfaces s a)
          then
            (let s1 = s\<lparr>surfaces := start_pan P a x y (ev_button event) (surfaces s),
                        pan_xypress := map_option (\<lambda>l. l @ [(a, i)]) (pan_xypress s)\<rparr>
             in case lock_acquire (movelock s1) PanTool of
                  Inl e \<Rightarrow> Inl (e, s1)
                | Inr l \<Rightarrow> pan_press_loop P event rest (s1\<lparr>movelock := l\<rparr>))
          else pan_press_loop P event rest s
      | _ \<Rightarrow> pan_press_loop P event rest s)"

definition pan_begin :: "pan_ops \<Rightarrow> state \<Rightarrow> event \<Rightarrow> outcome" where
  "pan_begin P s event =
     (let s1 = (if stack_empty (views s) then push_current s else s);
          s2 = s1\<lparr>pan_xypress := Some []\<rparr>
      in pan_press_loop P event (enumerate 0 (fig_axes s2)) s2)"

definition pan_press :: "pan_ops \<Rightarrow> state \<Rightarrow> event \<Rightarrow> outcome" where
  "pan_press P s event =
     (if ev_button event = Some 1 then pan_begin P (s\<lparr>pan_button_pressed := Some 1\<rparr>) event
      else if ev_button event = Some 3 then pan_begin P (s\<lparr>pan_button_pressed := Some 3\<rparr>) event
      else Inr (s\<lparr>pan_button_pressed := None\<rparr>))"

text \<open>\<^verbatim>\<open>ToolPan.release\<close>; iterating over \<^verbatim>\<open>_xypress\<close> when it is \<^verbatim>\<open>None\<close> raises.\<close>

definition pan_release :: "pan_ops \<Rightarrow> state \<Rightarrow> event \<Rightarrow> outcome" where
  "pan_release P s event =
     (if pan_button_pressed s = None then Inr s
      else
        (let s1 = s\<lparr>movelock := lock_release (movelock s) PanTool\<rparr> in
         case pan_xypress s1 of
           None \<Rightarrow> Inl (TypeError, s1)
         | Some l \<Rightarrow>
             (let s2 = s1\<lparr>surfaces := fold (\<lambda>ai. end_pan P (fst ai)) l (surfaces s1)\<rparr> in
              if l = [] then Inr s2
              else Inr (nav_log Nav_draw
                          (nav_log (Nav_release event)
                             (push_current
                                (s2\<lparr>pan_xypress := Some [], pan_button_pressed := None\<rparr>)))))))"

text \<open>\<^verbatim>\<open>ToolPan.mouse_move\<close>.\<close>

definition pan_mouse_move :: "pan_ops \<Rightarrow> state \<Rightarrow> event \<Rightarrow> outcome" where
  "pan_mouse_move P s event =
     (case pan_xypress s of
        None \<Rightarrow> Inl (TypeError, s)
      | Some l \<Rightarrow>
          Inr (nav_log Nav_dynamic_update
                 (s\<lparr>surfaces :=
                      fold (\<lambda>ai. drag_pan P (fst ai) (pan_button_pressed s) (ev_key event)
                                   (ev_x event) (ev_y event))
                        l (surfaces s)\<rparr>)))"

subsection \<open>Gestures and example figures\<close>

text \<open>A press followed by a release, as the canvas delivers them to the zoom tool.\<close>

definition zoom_gesture :: "state \<Rightarrow> event \<Rightarrow> event \<Rightarrow> outcome" where
  "zoom_gesture s p r = (case zoom_press s p of Inl es \<Rightarrow> Inl es | Inr s1 \<Rightarrow> zoom_release s1 r)"

text \<open>The references of the axes that a press with the event \<open>e\<close> records for a zoom.\<close>

definition zoom_hits :: "state \<Rightarrow> event \<Rightarrow> nat list" where
  "zoom_hits s e =
     map snd
       (filter (\<lambda>ia. in_axes (surfaces s (snd ia)) e \<and> navigate (surfaces s (snd ia))
                     \<and> can_zoom (surfaces s (snd ia)))
          (enumerate 0 (fig_axes s)))"

text \<open>
  Modelled from the spec: the pixel-to-data transform of a linear axis (the transform
  classes are not in the file). The pixel interval from \<open>b0\<close> to \<open>b1\<close> of the bounding
  box is mapped affinely onto the data range \<open>(min, max)\<close> of the axis, \<open>b0\<close> to the first
  limit and \<open>b1\<close> to the second.
\<close>

definition pixel_to_data :: "real \<Rightarrow> real \<Rightarrow> interval \<Rightarrow> real \<Rightarrow> real" where
  "pixel_to_data b0 b1 lims p = fst lims + (p - b0) / (b1 - b0) * (snd lims - fst lims)"

text \<open>
  The transform of a surface with two linear axes and the pixel bounding box
  \<open>(bx0, by0, bx1, by1)\<close>, for given limits.
\<close>

definition linear_trans :: "real \<times> real \<times> real \<times> real \<Rightarrow> interval \<Rightarrow> interval \<Rightarrow> transform" where
  "linear_trans ext xl yl p =
     (let (bx0, by0, bx1, by1) = ext in
      (pixel_to_data bx0 bx1 xl (fst p), pixel_to_data by0 by1 yl (snd p)))"

text \<open>An event is inside a pixel box when it has both coordinates and they lie in the box.\<close>

definition in_box :: "real \<times> real \<times> real \<times> real \<Rightarrow> event \<Rightarrow> bool" where
  "in_box ext e =
     (let (bx0, by0, bx1, by1) = ext in
      case (ev_x e, ev_y e) of
        (Some x, Some y) \<Rightarrow> bx0 \<le> x \<and> x \<le> bx1 \<and> by0 \<le> y \<and> y \<le> by1
      | _ \<Rightarrow> False)"

text \<open>A navigable surface with linear axes, for the examples.\<close>

definition linear_axes ::
  "real \<times> real \<times> real \<times> real \<Rightarrow> interval \<Rightarrow> interval \<Rightarrow> nat option \<Rightarrow> nat option \<Rightarrow> axes" where
  "linear_axes ext xl yl sx sy =
     \<lparr>xlim = xl, ylim = yl, xscale = ''linear'', yscale = ''linear'', navigate = True,
      can_zoom = True, can_pan = True, in_axes = in_box ext, bbox_extents = ext,
      sharex = sx, sharey = sy, trans_of = linear_trans ext, pan_start = None\<rparr>"

text \<open>The state after the two tools were created: no lock held, no view, no gesture.\<close>

definition initial_state :: "nat list \<Rightarrow> store \<Rightarrow> state" where
  "initial_state refs S =
     \<lparr>fig_axes = refs, surfaces = S, callbacks = (\<lambda>cid. None), next_cid = 0,
      canvaslock = None, presslock = None, releaselock = None, movelock = None,
      views = \<lparr>elements = [], cursor = 0\<rparr>, nav_calls = [],
      zoom_ids_zoom = [], zoom_button_pressed = None, zoom_xypress = None, zoom_mode = None,
      pan_button_pressed = None, pan_xypress = None\<rparr>"

definition mouse :: "int \<Rightarrow> string option \<Rightarrow> real \<Rightarrow> real \<Rightarrow> event" where
  "mouse b k x y = \<lparr>ev_button = Some b, ev_key = k, ev_x = Some x, ev_y = Some y\<rparr>"

text \<open>One surface, pixel box 100 by 100, both ranges \<open>(0, 10)\<close>.\<close>

definition one_axes :: state where
  "one_axes = initial_state [0] (\<lambda>a. linear_axes (0, 0, 100, 100) (0, 10) (0, 10) None None)"

text \<open>
  Two overlapping surfaces that share their x axis: pixel boxes 100 by 100 and 200 by 200,
  all ranges \<open>(0, 10)\<close>.
\<close>

definition twin_axes :: state where
  "twin_axes =
     initial_state [0, 1]
       (\<lambda>a. if a = 0 then linear_axes (0, 0, 100, 100) (0, 10) (0, 10) (Some 0) None
            else linear_axes (0, 0, 200, 200) (0, 10) (0, 10) (Some 0) None)"

text \<open>A surface whose pan primitives record the call in its \<open>pan_start\<close> slot.\<close>

definition recording_pan :: pan_ops where
  "recording_pan =
     \<lparr>start_pan = (\<lambda>a x y b S. S(a := (S a)\<lparr>pan_start := Some (x, y, b)\<rparr>)),
      drag_pan = (\<lambda>a b k x y S.
         S(a := (S a)\<lparr>pan_start := Some (case x of None \<Rightarrow> 0 | Some v \<Rightarrow> v,
                                        case y of None \<Rightarrow> 0 | Some v \<Rightarrow> v, b)\<rparr>)),
      end_pan = (\<lambda>a S. S(a := (S a)\<lparr>pan_start := None\<rparr>))\<rparr>"



section \<open>Properties\<close>

subsection \<open>Evaluation and frame lemmas\<close>

lemmas run_defs = zoom_gesture_def zoom_press_def zoom_arm_def zoom_release_def zoom_disarm_def
  zoom_surface_def zoom_rect_def zoom_rect_axis_def zoom_out_axis_def zoom_abort_def zoom_finish_def
  zoom_cancel_def zoom_activate_def zoom_deactivate_def pan_activate_def pan_deactivate_def
  pan_press_def pan_begin_def pan_release_def pan_mouse_move_def recording_pan_def
  one_axes_def twin_axes_def initial_state_def linear_axes_def linear_trans_def pixel_to_data_def
  in_box_def
  mouse_def lock_acquire_def lock_release_def mpl_connect_def mpl_disconnect_def nav_log_def
  push_current_def stack_empty_def stack_push_def press_record_of_def transData_inverted_def
  viewLim_extents_def joined_x_def joined_y_def set_xlim_def set_ylim_def final_def Let_def

lemma final_Inr [simp]: "final (Inr s) = s"
  by (simp add: final_def)

lemma final_Inl [simp]: "final (Inl (e, s)) = s"
  by (simp add: final_def)

lemma fold_disconnect:
  "fold mpl_disconnect ids s = s\<lparr>callbacks := fold (\<lambda>i m. m(i := None)) ids (callbacks s)\<rparr>"
  by (induction ids arbitrary: s) (simp_all add: mpl_disconnect_def)

lemma fold_clear: "fold (\<lambda>i m. m(i := None)) ids m j = (if j \<in> set ids then None else m j)"
  by (induction ids arbitrary: m) auto

lemma zoom_disarm_eq:
  "zoom_disarm s =
     s\<lparr>movelock := lock_release (movelock s) ZoomTool,
       callbacks := fold (\<lambda>i m. m(i := None)) (zoom_ids_zoom s) (callbacks s),
       zoom_ids_zoom := []\<rparr>"
  by (simp add: zoom_disarm_def fold_disconnect)

lemma zoom_release_cases:
  "zoom_release s e = Inr (zoom_disarm s) \<and> (zoom_xypress s = None \<or> zoom_xypress s = Some [])
   \<or> (\<exists>rs. rs \<noteq> [] \<and> zoom_xypress s = Some rs
          \<and> zoom_release s e = release_loop e [] rs (zoom_disarm s))"
  by (auto simp: zoom_release_def Let_def zoom_disarm_eq split: option.splits list.splits
      simp del: release_loop.simps)

lemma set_xlim_ylim [simp]: "ylim (set_xlim a v S b) = ylim (S b)"
  by (simp add: set_xlim_def)

lemma set_ylim_xlim [simp]: "xlim (set_ylim a v S b) = xlim (S b)"
  by (simp add: set_ylim_def)







text \<open>
  A release whose point is closer than 5 pixels, in x or in y, to the press point of all
  records ends at the first record, or at once when there is no record.
\<close>

lemma release_below_threshold:
  assumes "zoom_xypress s = Some rs" and "\<forall>r\<in>set rs. pr_x r = px \<and> pr_y r = py"
    and "ev_x e = Some x" and "ev_y e = Some y" and "\<bar>x - px\<bar> < 5 \<or> \<bar>y - py\<bar> < 5"
  shows "\<exists>s'. zoom_release s e = Inr s' \<and> surfaces s' = surfaces s \<and> views s' = views s"
proof (cases rs)
  case Nil
  with assms(1) show ?thesis by (simp add: zoom_release_def zoom_disarm_eq Let_def)
next
  case (Cons cur rest)
  with assms show ?thesis
    by (auto simp: zoom_release_def zoom_disarm_eq Let_def zoom_abort_def nav_log_def)
qed

text \<open>What a press that arms the tool leaves behind.\<close>

lemma zoom_arm_result:
  assumes "zoom_arm s p = Inr s1" and "ev_x p = Some px" and "ev_y p = Some py"
  shows "surfaces s1 = surfaces s"
    and "views s1 = (if stack_empty (views s) then views (push_current s) else views s)"
    and "\<exists>rs. zoom_xypress s1 = Some rs \<and> (\<forall>r\<in>set rs. pr_x r = px \<and> pr_y r = py)"
  using assms
  by (auto simp: zoom_arm_def Let_def mpl_connect_def nav_log_def push_current_def
      press_record_of_def split: sum.splits if_splits)





lemma joined_set [simp]:
  "joined_x (set_xlim a v S) = joined_x S" "joined_x (set_ylim a v S) = joined_x S"
  "joined_y (set_xlim a v S) = joined_y S" "joined_y (set_ylim a v S) = joined_y S"
  by (auto simp: joined_x_def joined_y_def set_xlim_def set_ylim_def fun_eq_iff)

lemma set_xlim_self [simp]: "xlim (set_xlim a v S a) = v"
  by (simp add: set_xlim_def)

lemma set_ylim_self [simp]: "ylim (set_ylim a v S a) = v"
  by (simp add: set_ylim_def)








text \<open>One round of the loop for button 1 without a constraint: both setters are called.\<close>

lemma zoom_surface_button1:
  assumes "zoom_button_pressed s = Some 1" and "zoom_mode s \<noteq> Some ''x''"
    and "zoom_mode s \<noteq> Some ''y''"
  shows "zoom_surface s la cur x y =
           Inr (s\<lparr>surfaces := set_ylim (pr_a cur) (snd (zoom_rect (surfaces s) la cur x y))
                                (set_xlim (pr_a cur) (fst (zoom_rect (surfaces s) la cur x y))
                                   (surfaces s))\<rparr>)"
  using assms by (simp add: zoom_surface_def Let_def split: prod.splits)

lemma release_loop_step:
  assumes "zoom_button_pressed s = Some 1" and "zoom_mode s \<noteq> Some ''x''"
    and "zoom_mode s \<noteq> Some ''y''" and "ev_x e = Some x" and "ev_y e = Some y"
    and "5 \<le> \<bar>x - pr_x cur\<bar>" and "5 \<le> \<bar>y - pr_y cur\<bar>"
  shows "release_loop e la (cur # rest) s =
           release_loop e (la @ [pr_a cur]) rest
             (s\<lparr>surfaces := set_ylim (pr_a cur) (snd (zoom_rect (surfaces s) la cur x y))
                                (set_xlim (pr_a cur) (fst (zoom_rect (surfaces s) la cur x y))
                                   (surfaces s))\<rparr>)"
  using assms zoom_surface_button1[OF assms(1-3), of la cur x y] by simp








text \<open>Arithmetic of one linear axis, with the pixel positions as fractions of the box.\<close>

lemma frac_in_range:
  fixes m d t :: real
  assumes "d \<noteq> 0" and "min m (m + d) \<le> m + t * d" and "m + t * d \<le> max m (m + d)"
  shows "0 \<le> t \<and> t \<le> 1"
proof (cases "0 < d")
  case True
  with assms have "0 \<le> t * d" "t * d \<le> 1 * d" by (simp_all add: min_def max_def)
  with True show ?thesis by (simp_all add: zero_le_mult_iff mult_le_cancel_right)
next
  case False
  with assms have d: "d < 0" by simp
  with assms have "t * d \<le> 0" "1 * d \<le> t * d" by (simp_all add: min_def max_def)
  with d show ?thesis by (simp_all add: mult_le_0_iff mult_le_cancel_right)
qed

lemma zoom_rect_axis_frac:
  fixes m d tp tq :: real
  assumes "d \<noteq> 0" and "0 \<le> tp" and "tp \<le> 1" and "0 \<le> tq" and "tq \<le> 1"
  shows "zoom_rect_axis False (m, m + d) (m + tq * d) (m + tp * d) =
           (m + min tp tq * d, m + max tp tq * d)"
proof (cases "0 < d")
  case True
  then have "0 \<le> tp * d" "0 \<le> tq * d" "tp * d \<le> d" "tq * d \<le> d"
    using assms by (simp_all add: mult_left_le_one_le)
  with True show ?thesis
    by (auto simp: zoom_rect_axis_def Let_def min_def max_def mult_less_cancel_right
        mult_le_cancel_right)
next
  case False
  with assms have d: "d < 0" by simp
  then have "tp * d \<le> 0" "tq * d \<le> 0" "d \<le> tp * d" "d \<le> tq * d"
    using assms by (simp_all add: mult_le_0_iff mult_le_cancel_right2)
  with d show ?thesis
    by (auto simp: zoom_rect_axis_def Let_def min_def max_def mult_less_cancel_right
        mult_le_cancel_right)
qed

lemma spanned_frac:
  fixes m d tp tq :: real
  assumes "d \<noteq> 0"
  shows "(m + min tp tq * d, m + max tp tq * d) =
         (if m < m + d then (min (m + tp * d) (m + tq * d), max (m + tp * d) (m + tq * d))
          else (max (m + tp * d) (m + tq * d), min (m + tp * d) (m + tq * d)))"
proof (cases "0 < d")
  case True
  then show ?thesis by (auto simp: min_def max_def mult_le_cancel_right)
next
  case False
  with assms have "d < 0" by simp
  then show ?thesis by (auto simp: min_def max_def mult_le_cancel_right)
qed

lemma zoom_out_axis_linear:
  "scale \<noteq> ''log'' \<Longrightarrow> x1 - x0 \<noteq> 0 \<Longrightarrow>
   zoom_out_axis scale (Xmin, Xmax) (x0, x1) =
     Some ((Xmax - Xmin) / (x1 - x0) * (Xmin - x0) + Xmin,
           (Xmax - Xmin) / (x1 - x0) * (Xmax - x0) + Xmin)"
  by (simp add: zoom_out_axis_def Let_def)

lemma zoom_out_axis_frac:
  fixes m d ta tb :: real
  assumes "d \<noteq> 0" and "ta \<noteq> tb" and "scale \<noteq> ''log''"
    and "a = m + ta * d" and "b = m + tb * d"
  shows "zoom_out_axis scale (a, b) (a + ta * (b - a), a + tb * (b - a)) = Some (m, m + d)"
proof -
  have ba: "b - a = (tb - ta) * d" using assms by (simp add: algebra_simps)
  have nz: "tb - ta \<noteq> 0" using assms by simp
  have x: "(a + tb * (b - a)) - (a + ta * (b - a)) = (tb - ta) * ((tb - ta) * d)"
    unfolding ba by (simp add: algebra_simps)
  have xnz: "(a + tb * (b - a)) - (a + ta * (b - a)) \<noteq> 0"
    unfolding x using nz assms(1) by simp
  have alpha: "(b - a) / ((a + tb * (b - a)) - (a + ta * (b - a))) = 1 / (tb - ta)"
    unfolding x unfolding ba using nz assms(1) by simp
  have r1: "1 / (tb - ta) * (a - (a + ta * (b - a))) + a = m"
    unfolding ba using nz assms(4) by (simp add: field_simps)
  have r2: "1 / (tb - ta) * (b - (a + ta * (b - a))) + a = m + d"
    unfolding ba using nz assms(4,5) by (simp add: field_simps)
  show ?thesis
    unfolding zoom_out_axis_linear[OF assms(3) xnz] alpha r1 r2 ..
qed

text \<open>Zoom in and then zoom out on one linear axis, on the same two pixel positions.\<close>

lemma linear_axis_roundtrip:
  assumes "b0 \<noteq> b1" and "scale \<noteq> ''log''"
    and "dp = pixel_to_data b0 b1 (m, M) p" and "dq = pixel_to_data b0 b1 (m, M) q"
    and "min m M \<le> dp" and "dp \<le> max m M" and "min m M \<le> dq" and "dq \<le> max m M"
    and "dp \<noteq> dq"
    and "new = zoom_rect_axis False (m, M) dq dp"
  shows "new = (if m < M then (min dp dq, max dp dq) else (max dp dq, min dp dq))
       \<and> zoom_out_axis scale new
           (zoom_rect_axis False new (pixel_to_data b0 b1 new q) (pixel_to_data b0 b1 new p))
         = Some (m, M)"
proof -
  define d where "d = M - m"
  define tp where "tp = (p - b0) / (b1 - b0)"
  define tq where "tq = (q - b0) / (b1 - b0)"
  define a where "a = m + min tp tq * d"
  define b where "b = m + max tp tq * d"
  have "m \<noteq> M" using assms(5-9) by auto
  then have M: "M = m + d" and d: "d \<noteq> 0" by (simp_all add: d_def)
  have dp: "dp = m + tp * d" and dq: "dq = m + tq * d"
    by (simp_all add: assms(3,4) pixel_to_data_def tp_def tq_def d_def)
  have tpr: "0 \<le> tp \<and> tp \<le> 1"
    using frac_in_range[OF d, of m tp] assms(5,6) by (simp add: dp M)
  have tqr: "0 \<le> tq \<and> tq \<le> 1"
    using frac_in_range[OF d, of m tq] assms(7,8) by (simp add: dq M)
  have ne: "min tp tq \<noteq> max tp tq"
    using assms(9) by (auto simp: dp dq min_def max_def)
  have new: "new = (a, b)"
    unfolding assms(10) dp dq M a_def b_def using zoom_rect_axis_frac[OF d] tpr tqr by simp
  have ba: "b - a = (max tp tq - min tp tq) * d"
    by (simp add: a_def b_def algebra_simps)
  have ba0: "b - a \<noteq> 0" unfolding ba using ne d by simp
  have ep: "pixel_to_data b0 b1 (a, b) p = a + tp * (b - a)"
    and eq: "pixel_to_data b0 b1 (a, b) q = a + tq * (b - a)"
    by (simp_all add: pixel_to_data_def tp_def tq_def)
  have "zoom_rect_axis False (a, a + (b - a)) (a + tq * (b - a)) (a + tp * (b - a))
      = (a + min tp tq * (b - a), a + max tp tq * (b - a))"
    using zoom_rect_axis_frac[OF ba0, where m = a and tp = tp and tq = tq] tpr tqr by blast
  then have rect:
    "zoom_rect_axis False (a, b) (pixel_to_data b0 b1 (a, b) q) (pixel_to_data b0 b1 (a, b) p)
      = (a + min tp tq * (b - a), a + max tp tq * (b - a))"
    unfolding ep eq by simp
  have out: "zoom_out_axis scale (a, b) (a + min tp tq * (b - a), a + max tp tq * (b - a))
      = Some (m, m + d)"
    using zoom_out_axis_frac[OF d ne assms(2) a_def b_def] .
  have span: "new = (if m < M then (min dp dq, max dp dq) else (max dp dq, min dp dq))"
    unfolding new a_def b_def dp dq M using spanned_frac[OF d] by simp
  show ?thesis using span unfolding new rect out M by simp
qed

text \<open>Gestures that record exactly one surface.\<close>

lemma map_snd_single: "map snd xs = [a] \<Longrightarrow> \<exists>i. xs = [(i, a)]"
  by (cases xs) auto

lemma zoom_arm_single:
  assumes "movelock s = None \<or> movelock s = Some ZoomTool"
    and "ev_x p = Some px" and "ev_y p = Some py" and "zoom_hits s p = [a]"
  shows "\<exists>i s'. zoom_arm s p = Inr s'
           \<and> zoom_xypress s' = Some [press_record_of (surfaces s) px py (i, a)]
           \<and> surfaces s' = surfaces s \<and> fig_axes s' = fig_axes s
           \<and> zoom_button_pressed s' = zoom_button_pressed s \<and> zoom_mode s' = ev_key p
           \<and> movelock s' = Some ZoomTool"
proof -
  obtain i where
    f: "filter (\<lambda>ia. in_axes (surfaces s (snd ia)) p \<and> navigate (surfaces s (snd ia))
                     \<and> can_zoom (surfaces s (snd ia))) (enumerate 0 (fig_axes s)) = [(i, a)]"
    using map_snd_single[OF assms(4)[unfolded zoom_hits_def]] by blast
  from assms(1) have l: "lock_acquire (movelock s) ZoomTool = Inr (Some ZoomTool)"
    by (auto simp: lock_acquire_def)
  show ?thesis
    using assms(2,3) f l
    by (auto simp: zoom_arm_def Let_def push_current_def mpl_connect_def nav_log_def)
qed

lemma zoom_surface_button3:
  assumes "zoom_button_pressed s = Some 3" and "zoom_mode s \<noteq> Some ''x''"
    and "zoom_mode s \<noteq> Some ''y''"
    and "zoom_out_axis (xscale (surfaces s (pr_a cur))) (xlim (surfaces s (pr_a cur)))
           (fst (zoom_rect (surfaces s) la cur x y)) = Some v"
    and "zoom_out_axis (yscale (surfaces s (pr_a cur))) (ylim (surfaces s (pr_a cur)))
           (snd (zoom_rect (surfaces s) la cur x y)) = Some w"
  shows "zoom_surface s la cur x y =
           Inr (s\<lparr>surfaces := set_ylim (pr_a cur) w (set_xlim (pr_a cur) v (surfaces s))\<rparr>)"
  using assms by (simp add: zoom_surface_def Let_def case_prod_unfold)

lemma zoom_rect_linear:
  assumes "trans_of (S (pr_a cur)) = linear_trans (bx0, by0, bx1, by1)"
  shows "zoom_rect S [] cur x y =
     (zoom_rect_axis False (xlim (S (pr_a cur)))
        (pixel_to_data bx0 bx1 (xlim (S (pr_a cur))) x)
        (pixel_to_data bx0 bx1 (xlim (S (pr_a cur))) (pr_x cur)),
      zoom_rect_axis False (ylim (S (pr_a cur)))
        (pixel_to_data by0 by1 (ylim (S (pr_a cur))) y)
        (pixel_to_data by0 by1 (ylim (S (pr_a cur))) (pr_y cur)))"
  using assms by (simp add: zoom_rect_def Let_def transData_inverted_def linear_trans_def)

lemma set_lim_fields [simp]:
  "in_axes (set_xlim a v S b) = in_axes (S b)" "in_axes (set_ylim a v S b) = in_axes (S b)"
  "navigate (set_xlim a v S b) = navigate (S b)" "navigate (set_ylim a v S b) = navigate (S b)"
  "can_zoom (set_xlim a v S b) = can_zoom (S b)" "can_zoom (set_ylim a v S b) = can_zoom (S b)"
  "trans_of (set_xlim a v S b) = trans_of (S b)" "trans_of (set_ylim a v S b) = trans_of (S b)"
  "xscale (set_xlim a v S b) = xscale (S b)" "xscale (set_ylim a v S b) = xscale (S b)"
  "yscale (set_xlim a v S b) = yscale (S b)" "yscale (set_ylim a v S b) = yscale (S b)"
  by (simp_all add: set_xlim_def set_ylim_def)

lemma zoom_hits_cong:
  assumes "fig_axes t = fig_axes s"
    and "\<And>b. in_axes (surfaces t b) = in_axes (surfaces s b)"
    and "\<And>b. navigate (surfaces t b) = navigate (surfaces s b)"
    and "\<And>b. can_zoom (surfaces t b) = can_zoom (surfaces s b)"
  shows "zoom_hits t e = zoom_hits s e"
  using assms by (simp add: zoom_hits_def)

text \<open>A whole gesture on one recorded surface with linear axes, for button 1 or 3.\<close>

lemma zoom_gesture_single:
  assumes "zoom_ids_zoom s = []" and "movelock s = None \<or> movelock s = Some ZoomTool"
    and "zoom_hits s p = [a]"
    and "ev_x p = Some px" and "ev_y p = Some py"
    and "ev_key p \<noteq> Some ''x''" and "ev_key p \<noteq> Some ''y''"
    and "ev_x r = Some qx" and "ev_y r = Some qy"
    and "5 \<le> \<bar>qx - px\<bar>" and "5 \<le> \<bar>qy - py\<bar>"
    and "trans_of (surfaces s a) = linear_trans (bx0, by0, bx1, by1)"
    and "xr = zoom_rect_axis False (xlim (surfaces s a))
                (pixel_to_data bx0 bx1 (xlim (surfaces s a)) qx)
                (pixel_to_data bx0 bx1 (xlim (surfaces s a)) px)"
    and "yr = zoom_rect_axis False (ylim (surfaces s a))
                (pixel_to_data by0 by1 (ylim (surfaces s a)) qy)
                (pixel_to_data by0 by1 (ylim (surfaces s a)) py)"
  shows "ev_button p = Some 1 \<Longrightarrow>
         \<exists>s1. zoom_gesture s p r = Inr s1
           \<and> surfaces s1 = set_ylim a yr (set_xlim a xr (surfaces s))
           \<and> fig_axes s1 = fig_axes s \<and> zoom_ids_zoom s1 = [] \<and> movelock s1 = None"
    and "ev_button p = Some 3 \<Longrightarrow>
         zoom_out_axis (xscale (surfaces s a)) (xlim (surfaces s a)) xr = Some v \<Longrightarrow>
         zoom_out_axis (yscale (surfaces s a)) (ylim (surfaces s a)) yr = Some w \<Longrightarrow>
         \<exists>s1. zoom_gesture s p r = Inr s1
           \<and> surfaces s1 = set_ylim a w (set_xlim a v (surfaces s))"
proof -
  have step: "\<exists>i s'. zoom_press s p = Inr s'
           \<and> zoom_xypress s' = Some [press_record_of (surfaces s) px py (i, a)]
           \<and> surfaces s' = surfaces s \<and> fig_axes s' = fig_axes s
           \<and> zoom_button_pressed s' = Some b \<and> zoom_mode s' = ev_key p
           \<and> movelock s' = Some ZoomTool"
    if b: "ev_button p = Some b" "b = 1 \<or> b = 3" for b
  proof -
    let ?s = "s\<lparr>zoom_button_pressed := Some b\<rparr>"
    have press: "zoom_press s p = zoom_arm ?s p"
      using assms(1) b by (auto simp: zoom_press_def)
    have hits: "zoom_hits ?s p = [a]" using assms(3) by (simp add: zoom_hits_def)
    have "movelock ?s = None \<or> movelock ?s = Some ZoomTool" using assms(2) by simp
    from zoom_arm_single[OF this assms(4,5) hits] press
    show ?thesis by simp
  qed
  {
    assume b1: "ev_button p = Some 1"
    from step[OF b1] obtain i s' where s': "zoom_press s p = Inr s'"
      "zoom_xypress s' = Some [press_record_of (surfaces s) px py (i, a)]"
      "surfaces s' = surfaces s" "fig_axes s' = fig_axes s"
      "zoom_button_pressed s' = Some 1" "zoom_mode s' = ev_key p" "movelock s' = Some ZoomTool"
      by auto
    let ?cur = "press_record_of (surfaces s) px py (i, a)"
    let ?s0 = "zoom_disarm s'"
    have cur: "pr_a ?cur = a" "pr_x ?cur = px" "pr_y ?cur = py"
      by (simp_all add: press_record_of_def)
    have s0: "surfaces ?s0 = surfaces s" "zoom_button_pressed ?s0 = Some 1"
      "zoom_mode ?s0 = ev_key p" "fig_axes ?s0 = fig_axes s" "zoom_ids_zoom ?s0 = []"
      "movelock ?s0 = None"
      using s' by (simp_all add: zoom_disarm_eq lock_release_def)
    have rel: "zoom_release s' r = release_loop r [] [?cur] ?s0"
      using zoom_release_cases[of s' r] s'(2) by auto
    have rect: "zoom_rect (surfaces s) [] ?cur qx qy = (xr, yr)"
      using zoom_rect_linear[of "surfaces s" ?cur bx0 by0 bx1 by1 qx qy] assms(12,13,14) cur
      by simp
    have "release_loop r [] [?cur] ?s0 =
        release_loop r ([] @ [pr_a ?cur]) []
          (?s0\<lparr>surfaces := set_ylim (pr_a ?cur) (snd (zoom_rect (surfaces ?s0) [] ?cur qx qy))
                   (set_xlim (pr_a ?cur) (fst (zoom_rect (surfaces ?s0) [] ?cur qx qy))
                      (surfaces ?s0))\<rparr>)"
      using s0 assms(6-11) cur by (intro release_loop_step) simp_all
    with rel s0 rect cur s'(1)
    show "\<exists>s1. zoom_gesture s p r = Inr s1
           \<and> surfaces s1 = set_ylim a yr (set_xlim a xr (surfaces s))
           \<and> fig_axes s1 = fig_axes s \<and> zoom_ids_zoom s1 = [] \<and> movelock s1 = None"
      by (simp add: zoom_gesture_def zoom_finish_def nav_log_def push_current_def)
  }
  {
    assume b3: "ev_button p = Some 3"
      and v: "zoom_out_axis (xscale (surfaces s a)) (xlim (surfaces s a)) xr = Some v"
      and w: "zoom_out_axis (yscale (surfaces s a)) (ylim (surfaces s a)) yr = Some w"
    from step[OF b3] obtain i s' where s': "zoom_press s p = Inr s'"
      "zoom_xypress s' = Some [press_record_of (surfaces s) px py (i, a)]"
      "surfaces s' = surfaces s" "fig_axes s' = fig_axes s"
      "zoom_button_pressed s' = Some 3" "zoom_mode s' = ev_key p" "movelock s' = Some ZoomTool"
      by auto
    let ?cur = "press_record_of (surfaces s) px py (i, a)"
    let ?s0 = "zoom_disarm s'"
    have cur: "pr_a ?cur = a" "pr_x ?cur = px" "pr_y ?cur = py"
      by (simp_all add: press_record_of_def)
    have s0: "surfaces ?s0 = surfaces s" "zoom_button_pressed ?s0 = Some 3"
      "zoom_mode ?s0 = ev_key p"
      using s' by (simp_all add: zoom_disarm_eq)
    have rel: "zoom_release s' r = release_loop r [] [?cur] ?s0"
      using zoom_release_cases[of s' r] s'(2) by auto
    have rect: "zoom_rect (surfaces s) [] ?cur qx qy = (xr, yr)"
      using zoom_rect_linear[of "surfaces s" ?cur bx0 by0 bx1 by1 qx qy] assms(12,13,14) cur
      by simp
    have "zoom_surface ?s0 [] ?cur qx qy =
        Inr (?s0\<lparr>surfaces := set_ylim (pr_a ?cur) w (set_xlim (pr_a ?cur) v (surfaces ?s0))\<rparr>)"
      using s0 assms(6,7) cur rect v w by (intro zoom_surface_button3) simp_all
    with rel s0 cur s'(1) assms(8-11)
    show "\<exists>s1. zoom_gesture s p r = Inr s1
           \<and> surfaces s1 = set_ylim a w (set_xlim a v (surfaces s))"
      by (simp add: zoom_gesture_def zoom_finish_def nav_log_def push_current_def)
  }
qed

subsection \<open>Locks at deactivation\<close>

text \<open>
  Claim C4, as amended. After \<open>deactivate\<close>, a toggle tool (zoom or pan) holds none of the
  three locks that its \<open>activate\<close> takes: the canvas lock, the press lock and the release
  lock. The move lock is not touched by \<open>deactivate\<close>: it is taken by \<open>press\<close> and given
  back by \<open>release\<close> (or by the cancelling press of the zoom tool) only.
\<close>

theorem deactivate_releases_activation_locks:
  "canvaslock (zoom_deactivate s) \<noteq> Some ZoomTool
   \<and> presslock (zoom_deactivate s) \<noteq> Some ZoomTool
   \<and> releaselock (zoom_deactivate s) \<noteq> Some ZoomTool
   \<and> movelock (zoom_deactivate s) = movelock s
   \<and> canvaslock (pan_deactivate s) \<noteq> Some PanTool
   \<and> presslock (pan_deactivate s) \<noteq> Some PanTool
   \<and> releaselock (pan_deactivate s) \<noteq> Some PanTool
   \<and> movelock (pan_deactivate s) = movelock s"
  by (simp add: zoom_deactivate_def pan_deactivate_def lock_release_def)

theorem deactivate_releases_activation_locks_witness:
  "canvaslock (final (zoom_activate one_axes)) = Some ZoomTool
   \<and> canvaslock (zoom_deactivate (final (zoom_activate one_axes))) \<noteq> Some ZoomTool
   \<and> presslock (zoom_deactivate (final (zoom_activate one_axes))) \<noteq> Some ZoomTool
   \<and> releaselock (zoom_deactivate (final (zoom_activate one_axes))) \<noteq> Some ZoomTool"
  using deactivate_releases_activation_locks [of "final (zoom_activate one_axes)"]
  by (simp add: run_defs)

text \<open>
  The claim as stated fails: the tool is activated, a button is pressed over the surface,
  and the tool is deactivated before the release. The move lock is still held by the
  tool, for the zoom tool and for the pan tool.
\<close>

theorem deactivate_mid_gesture_keeps_movelock:
  "movelock (zoom_deactivate
       (final (zoom_press (final (zoom_activate one_axes)) (mouse 1 None 20 20))))
     = Some ZoomTool
   \<and> movelock (pan_deactivate
       (final (pan_press recording_pan (final (pan_activate one_axes)) (mouse 1 None 20 20))))
     = Some PanTool"
  by (simp add: run_defs)

subsection \<open>Singular clicks and flat drags\<close>

text \<open>
  Claim C5. A zoom gesture starts in an idle tool with a press of button 1 or 3 at the
  pixel point \<open>(px, py)\<close>. When the release point is closer than 5 pixels to it in x and
  in y, the release returns normally, the ranges of all surfaces are those before the
  press, the release pushes nothing onto the view stack, and the stack is the one before
  the press when it was not empty then.
\<close>

theorem singular_click_keeps_view:
  assumes "zoom_ids_zoom s = []" and "ev_button p = Some 1 \<or> ev_button p = Some 3"
    and "zoom_press s p = Inr s1"
    and "ev_x p = Some px" and "ev_y p = Some py" and "ev_x r = Some x" and "ev_y r = Some y"
    and "\<bar>x - px\<bar> < 5" and "\<bar>y - py\<bar> < 5"
  shows "\<exists>s2. zoom_release s1 r = Inr s2 \<and> surfaces s2 = surfaces s \<and> views s2 = views s1
           \<and> (\<not> stack_empty (views s) \<longrightarrow> views s2 = views s)"
proof -
  from assms(1-3) obtain s0 where arm: "zoom_arm s0 p = Inr s1"
    and s0: "surfaces s0 = surfaces s" "views s0 = views s"
    by (auto simp: zoom_press_def split: if_splits)
  from zoom_arm_result[OF arm assms(4,5)] s0 obtain rs where
    1: "surfaces s1 = surfaces s" and 2: "\<not> stack_empty (views s) \<longrightarrow> views s1 = views s"
    and 3: "zoom_xypress s1 = Some rs" "\<forall>r\<in>set rs. pr_x r = px \<and> pr_y r = py"
    by (auto split: if_splits)
  from release_below_threshold[OF 3 assms(6,7)] assms(8) 1 2 show ?thesis by auto
qed

theorem singular_click_keeps_view_witness:
  "zoom_ids_zoom one_axes = []
   \<and> zoom_press one_axes (mouse 1 None 20 20) = Inr (final (zoom_press one_axes (mouse 1 None 20 20)))
   \<and> \<bar>22 - 20\<bar> < (5::real) \<and> \<bar>23 - 20\<bar> < (5::real)
   \<and> surfaces (final (zoom_release (final (zoom_press one_axes (mouse 1 None 20 20)))
                        (mouse 1 None 22 23)))
       = surfaces one_axes"
  using singular_click_keeps_view [of one_axes "mouse 1 None 20 20"
      "final (zoom_press one_axes (mouse 1 None 20 20))" 20 20 "mouse 1 None 22 23" 22 23]
  by (simp add: run_defs)

text \<open>
  Claim C10. The press records of a gesture all carry the press point \<open>(px, py)\<close>. When
  the release point is closer than 5 pixels to it in x or in y (one of the two is
  enough), the release returns normally, no range of any surface is changed and nothing
  is pushed onto the view stack, whatever the button and the zoom mode are.
\<close>

theorem flat_drag_aborts:
  assumes "zoom_xypress s = Some rs" and "\<forall>r\<in>set rs. pr_x r = px \<and> pr_y r = py"
    and "ev_x e = Some x" and "ev_y e = Some y" and "\<bar>x - px\<bar> < 5 \<or> \<bar>y - py\<bar> < 5"
  shows "\<exists>s'. zoom_release s e = Inr s' \<and> surfaces s' = surfaces s \<and> views s' = views s"
  using assms by (rule release_below_threshold)

text \<open>A wide and flat drag, 60 pixels by 2, with the key \<open>x\<close> held.\<close>

theorem flat_drag_aborts_witness:
  "zoom_mode (final (zoom_press one_axes (mouse 1 (Some ''x'') 20 20))) = Some ''x''
   \<and> (\<bar>80 - 20\<bar> < (5::real) \<or> \<bar>22 - 20\<bar> < (5::real))
   \<and> surfaces (final (zoom_release (final (zoom_press one_axes (mouse 1 (Some ''x'') 20 20)))
                        (mouse 1 (Some ''x'') 80 22)))
       = surfaces one_axes
   \<and> views (final (zoom_release (final (zoom_press one_axes (mouse 1 (Some ''x'') 20 20)))
                     (mouse 1 (Some ''x'') 80 22)))
       = views (final (zoom_press one_axes (mouse 1 (Some ''x'') 20 20)))"
  using flat_drag_aborts [of "final (zoom_press one_axes (mouse 1 (Some ''x'') 20 20))"
      "[press_record_of (surfaces one_axes) 20 20 (0, 0)]" 20 20 "mouse 1 (Some ''x'') 80 22" 80 22]
  by (simp add: run_defs)

subsection \<open>Zoom constrained to one axis\<close>



subsection \<open>The button of a pan\<close>

text \<open>
  Claim C7. A move event of the pan tool gives the same outcome whatever its own button
  field is; the button handed to \<open>drag_pan\<close> of every surface of the gesture is the one
  that the press recorded.
\<close>

theorem pan_move_ignores_event_button:
  "pan_mouse_move P s (event\<lparr>ev_button := b\<rparr>) = pan_mouse_move P s event
   \<and> (pan_xypress s = Some l \<longrightarrow>
        surfaces (final (pan_mouse_move P s event)) =
          fold (\<lambda>ai. drag_pan P (fst ai) (pan_button_pressed s) (ev_key event)
                       (ev_x event) (ev_y event))
            l (surfaces s))"
  by (simp add: pan_mouse_move_def nav_log_def split: option.splits)

text \<open>A pan started with button 1; the move event says button 3.\<close>

theorem pan_move_ignores_event_button_witness:
  "pan_xypress (final (pan_press recording_pan one_axes (mouse 1 None 20 20))) = Some [(0, 0)]
   \<and> pan_mouse_move recording_pan (final (pan_press recording_pan one_axes (mouse 1 None 20 20)))
        ((mouse 1 None 30 40)\<lparr>ev_button := Some 3\<rparr>)
     = pan_mouse_move recording_pan (final (pan_press recording_pan one_axes (mouse 1 None 20 20)))
        (mouse 1 None 30 40)
   \<and> pan_start (surfaces (final (pan_mouse_move recording_pan
        (final (pan_press recording_pan one_axes (mouse 1 None 20 20)))
        ((mouse 1 None 30 40)\<lparr>ev_button := Some 3\<rparr>))) 0) = Some (30, 40, Some 1)"
  using pan_move_ignores_event_button
    [of recording_pan "final (pan_press recording_pan one_axes (mouse 1 None 20 20))"
        "Some 3" "mouse 1 None 30 40" "[(0, 0)]"]
  by (simp add: run_defs)

subsection \<open>Cancelling and empty gestures\<close>

text \<open>
  Claim C8. A press that reaches the zoom tool while its key listeners are registered
  (\<open>_ids_zoom\<close> is not empty) cancels the gesture, whatever the button: the press returns
  normally, the move lock is released, the listeners of the recorded ids are removed,
  the press records, the recorded button and the ids are back at their idle values, and
  neither the ranges of the surfaces nor the view stack change.
\<close>

theorem press_while_armed_cancels:
  assumes "zoom_ids_zoom s \<noteq> []"
  shows "\<exists>s'. zoom_press s e = Inr s' \<and> movelock s' = lock_release (movelock s) ZoomTool
           \<and> movelock s' \<noteq> Some ZoomTool
           \<and> (\<forall>i\<in>set (zoom_ids_zoom s). callbacks s' i = None)
           \<and> zoom_xypress s' = None \<and> zoom_button_pressed s' = None \<and> zoom_ids_zoom s' = []
           \<and> surfaces s' = surfaces s \<and> views s' = views s"
  using assms
  by (simp add: zoom_press_def zoom_cancel_def fold_disconnect fold_clear nav_log_def
      lock_release_def)

text \<open>The zoom tool is armed with button 1; button 2 is pressed before the release.\<close>

theorem press_while_armed_cancels_witness:
  "zoom_ids_zoom (final (zoom_press one_axes (mouse 1 None 20 20))) = [0, 1]
   \<and> movelock (final (zoom_press one_axes (mouse 1 None 20 20))) = Some ZoomTool
   \<and> movelock (final (zoom_press (final (zoom_press one_axes (mouse 1 None 20 20)))
                        (mouse 2 None 50 50))) = None
   \<and> zoom_ids_zoom (final (zoom_press (final (zoom_press one_axes (mouse 1 None 20 20)))
                        (mouse 2 None 50 50))) = []"
  using press_while_armed_cancels
    [of "final (zoom_press one_axes (mouse 1 None 20 20))" "mouse 2 None 50 50"]
  by (simp add: run_defs)

text \<open>
  Claim C9. A release of the zoom tool when its list of press records is absent or empty
  returns normally, changes no range of any surface and pushes no view. A release of the
  pan tool when no button is recorded as pressed returns normally and leaves the whole
  state as it is; when a button is recorded but the list of surfaces of the pan is empty,
  it returns normally too, changes no surface and pushes no view.
\<close>

theorem release_without_press:
  "(zoom_xypress s = None \<or> zoom_xypress s = Some [] \<longrightarrow>
      (\<exists>s'. zoom_release s e = Inr s' \<and> surfaces s' = surfaces s \<and> views s' = views s))
   \<and> (pan_button_pressed s = None \<longrightarrow> pan_release P s e = Inr s)
   \<and> (pan_xypress s = Some [] \<longrightarrow>
      (\<exists>s'. pan_release P s e = Inr s' \<and> surfaces s' = surfaces s \<and> views s' = views s))"
  by (auto simp: zoom_release_def pan_release_def zoom_disarm_eq Let_def)

theorem release_without_press_witness:
  "zoom_xypress one_axes = None \<and> pan_button_pressed one_axes = None
   \<and> surfaces (final (zoom_release one_axes (mouse 1 None 80 80))) = surfaces one_axes
   \<and> views (final (zoom_release one_axes (mouse 1 None 80 80))) = views one_axes
   \<and> pan_release recording_pan one_axes (mouse 1 None 80 80) = Inr one_axes"
  using release_without_press [of one_axes "mouse 1 None 80 80" recording_pan]
  by (simp add: run_defs)

subsection \<open>The range of a zoom in\<close>




subsection \<open>Zoom out after zoom in on a linear axis\<close>



text \<open>
  The same example as two gestures on the figure \<open>one_axes\<close>: button 1 from \<open>(20, 20)\<close> to
  \<open>(80, 80)\<close> sets both ranges to \<open>(2, 8)\<close>, and button 3 on the same pixel rectangle
  afterwards sets them to \<open>(0, 10)\<close> again.
\<close>

lemma zoom_in_then_out_example:
  "xlim (surfaces (final (zoom_gesture one_axes (mouse 1 None 20 20) (mouse 1 None 80 80))) 0)
     = (2, 8)
   \<and> ylim (surfaces (final (zoom_gesture one_axes (mouse 1 None 20 20) (mouse 1 None 80 80))) 0)
     = (2, 8)
   \<and> xlim (surfaces (final (zoom_gesture
         (final (zoom_gesture one_axes (mouse 1 None 20 20) (mouse 1 None 80 80)))
         (mouse 3 None 20 20) (mouse 3 None 80 80))) 0) = (0, 10)
   \<and> ylim (surfaces (final (zoom_gesture
         (final (zoom_gesture one_axes (mouse 1 None 20 20) (mouse 1 None 80 80)))
         (mouse 3 None 20 20) (mouse 3 None 80 80))) 0) = (0, 10)"
  by (simp add: run_defs)

text \<open>
  The same for two whole gestures in any state: the tool is idle, the press records
  exactly one surface, this surface has two linear axes, and the drag is at least 5
  pixels wide and high. The gesture of button 1 sets the two spanned intervals, and the
  gesture of button 3 on the same pixel rectangle restores both ranges.
\<close>

lemma zoom_in_then_out_gesture:
  assumes "zoom_ids_zoom s = []" and "movelock s = None \<or> movelock s = Some ZoomTool"
    and "zoom_hits s p1 = [a]" and "zoom_hits s p3 = [a]"
    and "ev_button p1 = Some 1" and "ev_button p3 = Some 3"
    and "ev_x p1 = Some px" and "ev_y p1 = Some py"
    and "ev_x p3 = Some px" and "ev_y p3 = Some py"
    and "ev_key p1 \<noteq> Some ''x''" and "ev_key p1 \<noteq> Some ''y''"
    and "ev_key p3 \<noteq> Some ''x''" and "ev_key p3 \<noteq> Some ''y''"
    and "ev_x r = Some qx" and "ev_y r = Some qy"
    and "5 \<le> \<bar>qx - px\<bar>" and "5 \<le> \<bar>qy - py\<bar>"
    and "trans_of (surfaces s a) = linear_trans (bx0, by0, bx1, by1)"
    and "bx0 \<noteq> bx1" and "by0 \<noteq> by1"
    and "xscale (surfaces s a) \<noteq> ''log''" and "yscale (surfaces s a) \<noteq> ''log''"
    and "xlim (surfaces s a) = (m, M)" and "ylim (surfaces s a) = (n, N)"
    and "dpx = pixel_to_data bx0 bx1 (m, M) px" and "dqx = pixel_to_data bx0 bx1 (m, M) qx"
    and "dpy = pixel_to_data by0 by1 (n, N) py" and "dqy = pixel_to_data by0 by1 (n, N) qy"
    and "min m M \<le> dpx" and "dpx \<le> max m M" and "min m M \<le> dqx" and "dqx \<le> max m M"
    and "min n N \<le> dpy" and "dpy \<le> max n N" and "min n N \<le> dqy" and "dqy \<le> max n N"
    and "dpx \<noteq> dqx" and "dpy \<noteq> dqy"
  shows "\<exists>s1 s2. zoom_gesture s p1 r = Inr s1 \<and> zoom_gesture s1 p3 r = Inr s2
           \<and> xlim (surfaces s1 a) =
               (if m < M then (min dpx dqx, max dpx dqx) else (max dpx dqx, min dpx dqx))
           \<and> ylim (surfaces s1 a) =
               (if n < N then (min dpy dqy, max dpy dqy) else (max dpy dqy, min dpy dqy))
           \<and> xlim (surfaces s2 a) = (m, M) \<and> ylim (surfaces s2 a) = (n, N)"
proof -
  let ?S = "surfaces s"
  define xr where "xr = zoom_rect_axis False (m, M) dqx dpx"
  define yr where "yr = zoom_rect_axis False (n, N) dqy dpy"
  have xr: "xr = zoom_rect_axis False (xlim (?S a)) (pixel_to_data bx0 bx1 (xlim (?S a)) qx)
                   (pixel_to_data bx0 bx1 (xlim (?S a)) px)"
    and yr: "yr = zoom_rect_axis False (ylim (?S a)) (pixel_to_data by0 by1 (ylim (?S a)) qy)
                   (pixel_to_data by0 by1 (ylim (?S a)) py)"
    by (simp_all add: xr_def yr_def assms(24-29))
  from zoom_gesture_single(1)[OF assms(1,2,3) assms(7,8) assms(11,12) assms(15-18) assms(19) xr yr
      assms(5)]
  obtain s1 where s1: "zoom_gesture s p1 r = Inr s1"
    "surfaces s1 = set_ylim a yr (set_xlim a xr ?S)"
    "fig_axes s1 = fig_axes s" "zoom_ids_zoom s1 = []" "movelock s1 = None"
    by blast
  have rx: "xr = (if m < M then (min dpx dqx, max dpx dqx) else (max dpx dqx, min dpx dqx))
       \<and> zoom_out_axis (xscale (?S a)) xr
           (zoom_rect_axis False xr (pixel_to_data bx0 bx1 xr qx) (pixel_to_data bx0 bx1 xr px))
         = Some (m, M)"
    using assms(20,22,26,27,30-33,38) xr_def by (intro linear_axis_roundtrip) simp_all
  have ry: "yr = (if n < N then (min dpy dqy, max dpy dqy) else (max dpy dqy, min dpy dqy))
       \<and> zoom_out_axis (yscale (?S a)) yr
           (zoom_rect_axis False yr (pixel_to_data by0 by1 yr qy) (pixel_to_data by0 by1 yr py))
         = Some (n, N)"
    using assms(21,23,28,29,34-37,39) yr_def by (intro linear_axis_roundtrip) simp_all
  have a1: "xlim (surfaces s1 a) = xr" "ylim (surfaces s1 a) = yr"
    "trans_of (surfaces s1 a) = linear_trans (bx0, by0, bx1, by1)"
    "xscale (surfaces s1 a) = xscale (?S a)" "yscale (surfaces s1 a) = yscale (?S a)"
    using assms(19) by (simp_all add: s1(2))
  have hits: "zoom_hits s1 p3 = [a]"
    using assms(4) zoom_hits_cong[of s1 s p3] by (simp add: s1(2,3))
  have lock: "movelock s1 = None \<or> movelock s1 = Some ZoomTool" using s1(5) by simp
  from zoom_gesture_single(2)[OF s1(4) lock hits assms(9,10) assms(13,14) assms(15-18) a1(3)
      refl refl assms(6), of "(m, M)" "(n, N)"] rx ry a1
  obtain s2 where s2: "zoom_gesture s1 p3 r = Inr s2"
    "surfaces s2 = set_ylim a (n, N) (set_xlim a (m, M) (surfaces s1))"
    by auto
  from s1 s2 a1 rx ry show ?thesis by simp
qed

subsection \<open>The transform used at the release\<close>




end
